theory Spec2Isabelle
  imports Main "HOL-Library.Word"
begin

unbundle bit_operations_syntax

section \<open>Python values\<close>

text \<open>
  The tool arguments, the pipeline state and the collaborators' results are Python values
  of type \<open>Any\<close>. The model covers the values that JSON carries: \<open>None\<close>, booleans,
  integers, floats (as the 64 bits of the IEEE double), strings, lists and dictionaries
  with string keys. A \<open>str\<close> is the \<open>char\<close> list of its UTF-8 encoding. A dictionary is
  an association list in insertion order; \<open>map_of\<close> looks a key up.
\<close>

datatype pyval =
    PNone
  | PBool bool
  | PInt int
  | PFloat "64 word"
  | PStr string
  | PList "pyval list"
  | PDict "(string \<times> pyval) list"

type_synonym pydict = "(string \<times> pyval) list"

type_synonym bytes = "8 word list"

text \<open>
  Exceptions: \<open>KeyError\<close> of a subscript \<open>d[k]\<close> on a missing key, the \<open>ToolError\<close> that
  \<open>call_tool\<close> raises itself, and any exception that a collaborator or the serializer
  raises, carried through unchanged.
\<close>

datatype exn = KeyError string | ToolError string | Raised string

text \<open>Truth value of a Python value, as \<open>if v:\<close> and \<open>v or w\<close> test it.\<close>

fun py_truthy :: "pyval \<Rightarrow> bool" where
  "py_truthy PNone = False"
| "py_truthy (PBool b) = b"
| "py_truthy (PInt i) = (i \<noteq> 0)"
| "py_truthy (PFloat w) = (w AND 0x7FFFFFFFFFFFFFFF \<noteq> 0)"
| "py_truthy (PStr s) = (s \<noteq> [])"
| "py_truthy (PList xs) = (xs \<noteq> [])"
| "py_truthy (PDict kvs) = (kvs \<noteq> [])"

text \<open>\<open>a or b\<close>: the first operand when it is true, the second otherwise.\<close>

definition py_or :: "pyval \<Rightarrow> pyval \<Rightarrow> pyval" where
  "py_or a b = (if py_truthy a then a else b)"

text \<open>\<open>d[k]\<close> raises \<open>KeyError(k)\<close> on a missing key; \<open>d.get(k)\<close> returns \<open>None\<close> there.\<close>

definition dict_item :: "pydict \<Rightarrow> string \<Rightarrow> exn + pyval" where
  "dict_item d k = (case map_of d k of None \<Rightarrow> Inl (KeyError k) | Some v \<Rightarrow> Inr v)"

definition dict_get :: "pydict \<Rightarrow> string \<Rightarrow> pyval" where
  "dict_get d k = (case map_of d k of None \<Rightarrow> PNone | Some v \<Rightarrow> v)"

text \<open>
  A replacement field \<open>{v}\<close> of an f-string: a \<open>str\<close> is inserted as it is; for any other
  value the interpreter's \<open>str(v)\<close> is inserted, which is a parameter of the model.
\<close>

definition py_format :: "(pyval \<Rightarrow> string) \<Rightarrow> pyval \<Rightarrow> string" where
  "py_format str_other v = (case v of PStr s \<Rightarrow> s | _ \<Rightarrow> str_other v)"

text \<open>\<open>sep.join(parts)\<close>.\<close>

fun str_join :: "string \<Rightarrow> string list \<Rightarrow> string" where
  "str_join sep [] = []"
| "str_join sep [x] = x"
| "str_join sep (x # y # ys) = x @ sep @ str_join sep (y # ys)"

text \<open>\<open>s.encode("utf-8")\<close>: the bytes of the string.\<close>

definition encode_utf8 :: "string \<Rightarrow> bytes" where
  "encode_utf8 s = map of_char s"

section \<open>The protocol types\<close>

text \<open>
  The classes of \<open>mcp_types\<close> are used as plain constructors: each keeps the keyword
  arguments it is given. A keyword that a call leaves out is \<open>None\<close>.
\<close>

datatype content_part =
    TextContent (text_part: pyval)
  | BlobContent (data: bytes) (media_type: string) (filename: string)

datatype ToolResponse = ToolResponse (content: "content_part list")

datatype JSONSchema =
  JSONSchema (type: string) (schema_description: "string option")
    (properties: "(string \<times> JSONSchema) list option") (required: "string list option")

datatype Tool = Tool (tool_name: string) (description: string) (input_schema: JSONSchema)

section \<open>Collaborators and the call trace\<close>

text \<open>
  What lies outside \<open>mcp_server.py\<close> is a parameter: the pipeline \<open>graph.invoke\<close>, the
  search helper \<open>serp_search\<close>, \<open>json.dumps(\<dots>, indent=2)\<close> and \<open>str\<close> on values that are
  not strings. Each of the first three returns a value or raises.
\<close>

record env =
  graph_invoke :: "pydict \<Rightarrow> exn + pydict"
  serp_search :: "string \<Rightarrow> string \<Rightarrow> exn + pyval"
  json_dumps :: "pyval \<Rightarrow> exn + string"
  str_other :: "pyval \<Rightarrow> string"

text \<open>
  A run of \<open>call_tool\<close> returns, beside its result, the calls it made in order: the
  construction of a pipeline state, the invocation of the pipeline on a state, and the
  invocation of the search helper on a query and an engine.
\<close>

datatype call =
    DefaultState pyval
  | GraphInvoke pydict
  | SerpSearch string string

section \<open>The server\<close>

text \<open>\<open>_default_state\<close>, lines 25 to 39.\<close>

definition default_state :: "pyval \<Rightarrow> pydict" where
  "default_state question =
    [(''messages'', PList [PDict [(''role'', PStr ''user''), (''content'', question)]]),
     (''user_question'', question),
     (''google_results'', PNone),
     (''bing_results'', PNone),
     (''reddit_results'', PNone),
     (''selected_reddit_urls'', PNone),
     (''reddit_post_data'', PNone),
     (''google_analysis'', PNone),
     (''bing_analysis'', PNone),
     (''reddit_analysis'', PNone),
     (''final_answer'', PNone)]"

text \<open>
  The query of \<open>_flight_lookup\<close>, lines 44 to 55: everything the function does before it
  calls the search helper.
\<close>

definition flight_query :: "env \<Rightarrow> pydict \<Rightarrow> exn + string" where
  "flight_query e arguments =
    (case dict_item arguments ''origin'' of
       Inl err \<Rightarrow> Inl err
     | Inr origin \<Rightarrow>
    (case dict_item arguments ''destination'' of
       Inl err \<Rightarrow> Inl err
     | Inr destination \<Rightarrow>
       let depart_date = dict_get arguments ''depart_date'';
           return_date = dict_get arguments ''return_date'';
           query_parts = [''flights from '' @ py_format (str_other e) origin
                          @ '' to '' @ py_format (str_other e) destination];
           query_parts = (if py_truthy depart_date
                          then query_parts @ [''on '' @ py_format (str_other e) depart_date]
                          else query_parts);
           query_parts = (if py_truthy return_date
                          then query_parts @ [''return '' @ py_format (str_other e) return_date]
                          else query_parts)
       in Inr (str_join '' '' query_parts)))"

text \<open>\<open>_flight_lookup\<close>, lines 42 to 57: the query, then the search with engine \<open>google\<close>.\<close>

definition flight_lookup :: "env \<Rightarrow> pydict \<Rightarrow> (exn + pydict) \<times> call list" where
  "flight_lookup e arguments =
    (case flight_query e arguments of
       Inl err \<Rightarrow> (Inl err, [])
     | Inr query \<Rightarrow>
    (case serp_search e query ''google'' of
       Inl err \<Rightarrow> (Inl err, [SerpSearch query ''google''])
     | Inr search_results \<Rightarrow>
       (Inr [(''query'', PStr query), (''results'', search_results)],
        [SerpSearch query ''google''])))"

text \<open>
  \<open>_invoke_graph\<close>, lines 60 to 63. \<open>asyncio.to_thread\<close> runs the call on a worker thread
  and hands back its result or its exception; the model calls the function.
\<close>

definition invoke_graph :: "env \<Rightarrow> pyval \<Rightarrow> (exn + pydict) \<times> call list" where
  "invoke_graph e question =
    (let state = default_state question
     in (graph_invoke e state, [DefaultState question, GraphInvoke state]))"

text \<open>\<open>list_tools\<close>, lines 66 to 100.\<close>

definition list_tools :: "Tool list" where
  "list_tools =
    [Tool ''travel.plan_trip''
       ''Run the full travel research agent and return a synthesized itinerary.''
       (JSONSchema ''object'' None
          (Some [(''question'',
                  JSONSchema ''string'' (Some ''User travel request'') None None)])
          (Some [''question''])),
     Tool ''travel.search_flights''
       (''Perform a targeted flight availability search using Bright Data SERP.''
        @ '' Returns the parsed search response for downstream tooling.'')
       (JSONSchema ''object'' None
          (Some [(''origin'',
                  JSONSchema ''string'' (Some ''IATA origin code'') None None),
                 (''destination'',
                  JSONSchema ''string'' (Some ''IATA destination code'') None None),
                 (''depart_date'',
                  JSONSchema ''string'' (Some ''YYYY-MM-DD departure date'') None None),
                 (''return_date'',
                  JSONSchema ''string'' (Some ''Optional return date'') None None)])
          (Some [''origin'', ''destination'']))]"

text \<open>\<open>call_tool\<close>, lines 103 to 141.\<close>

definition call_tool :: "env \<Rightarrow> string \<Rightarrow> pydict \<Rightarrow> (exn + ToolResponse) \<times> call list" where
  "call_tool e name arguments =
    (if name = ''travel.plan_trip'' then
       (case dict_item arguments ''question'' of
          Inl err \<Rightarrow> (Inl err, [])
        | Inr question \<Rightarrow>
       (case invoke_graph e question of
          (Inl err, tr) \<Rightarrow> (Inl err, tr)
        | (Inr result, tr) \<Rightarrow>
          let final_answer =
                py_or (dict_get result ''final_answer'') (PStr ''No response produced.'')
          in (case json_dumps e (PDict result) of
                Inl err \<Rightarrow> (Inl err, tr)
              | Inr payload \<Rightarrow>
                (Inr (ToolResponse
                   [TextContent final_answer,
                    BlobContent (encode_utf8 payload) ''application/json'' ''plan_trip.json'']),
                 tr))))
     else if name = ''travel.search_flights'' then
       (case flight_lookup e arguments of
          (Inl err, tr) \<Rightarrow> (Inl err, tr)
        | (Inr flight_payload, tr) \<Rightarrow>
       (case dict_item flight_payload ''query'' of
          Inl err \<Rightarrow> (Inl err, tr)
        | Inr summary \<Rightarrow>
       (case json_dumps e (PDict flight_payload) of
          Inl err \<Rightarrow> (Inl err, tr)
        | Inr payload \<Rightarrow>
          (Inr (ToolResponse
             [TextContent
                (PStr (''Flight SERP query executed: '' @ py_format (str_other e) summary)),
              BlobContent (encode_utf8 payload) ''application/json'' ''flight_search.json'']),
           tr))))
     else (Inl (ToolError (''Unsupported tool: '' @ name)), []))"

section \<open>The specification's wording\<close>

text \<open>
  The query as the specification writes it:
  \<open>flights from <origin> to <destination>[ on <depart_date>][ return <return_date>]\<close>,
  a bracketed clause being there when its argument is present and not empty.
\<close>

definition spec_clause :: "string \<Rightarrow> string option \<Rightarrow> string" where
  "spec_clause word arg =
    (case arg of None \<Rightarrow> [] | Some d \<Rightarrow> if d = [] then [] else '' '' @ word @ '' '' @ d)"

definition spec_flight_query ::
  "string \<Rightarrow> string \<Rightarrow> string option \<Rightarrow> string option \<Rightarrow> string" where
  "spec_flight_query origin destination depart_date return_date =
    ''flights from '' @ origin @ '' to '' @ destination
    @ spec_clause ''on'' depart_date @ spec_clause ''return'' return_date"

text \<open>
  The tool-level error of the server is \<open>mcp_types.ToolError\<close>, the exception that
  \<open>call_tool\<close> raises for a tool it does not support.
\<close>

definition tool_level_error :: "exn + ToolResponse \<Rightarrow> bool" where
  "tool_level_error r = (case r of Inl (ToolError msg) \<Rightarrow> True | _ \<Rightarrow> False)"

section \<open>A concrete environment\<close>

text \<open>
  A pipeline that answers one question and leaves \<open>final_answer\<close> at \<open>None\<close> for any
  other, a search helper without results, and the output of \<open>json.dumps(\<dots>, indent=2)\<close>
  on the three dictionaries that occur.
\<close>

definition json_quote :: "string \<Rightarrow> string" where
  "json_quote s = CHR 0x22 # s @ [CHR 0x22]"

definition sample_question :: string where
  "sample_question = ''Plan a 3-day trip to Tokyo''"

definition sample_plan_json :: string where
  "sample_plan_json =
    ''{'' @ [CHR 0x0A] @ ''  '' @ json_quote ''final_answer'' @ '': ''
    @ json_quote ''Visit Asakusa.'' @ [CHR 0x0A] @ ''}''"

definition sample_empty_json :: string where
  "sample_empty_json =
    ''{'' @ [CHR 0x0A] @ ''  '' @ json_quote ''final_answer'' @ '': null'' @ [CHR 0x0A] @ ''}''"

definition sample_flight_json :: string where
  "sample_flight_json =
    ''{'' @ [CHR 0x0A] @ ''  '' @ json_quote ''query'' @ '': ''
    @ json_quote ''flights from SFO to NRT on 2024-05-01'' @ '','' @ [CHR 0x0A]
    @ ''  '' @ json_quote ''results'' @ '': []'' @ [CHR 0x0A] @ ''}''"

definition sample_env :: env where
  "sample_env =
    \<lparr>graph_invoke = (\<lambda>state.
       if dict_get state ''user_question'' = PStr sample_question
       then Inr [(''final_answer'', PStr ''Visit Asakusa.'')]
       else Inr [(''final_answer'', PNone)]),
     serp_search = (\<lambda>query engine.
       if engine = ''google'' then Inr (PList []) else Inl (Raised ''unknown engine'')),
     json_dumps = (\<lambda>v.
       if v = PDict [(''final_answer'', PStr ''Visit Asakusa.'')] then Inr sample_plan_json
       else if v = PDict [(''final_answer'', PNone)] then Inr sample_empty_json
       else if v = PDict [(''query'', PStr ''flights from SFO to NRT on 2024-05-01''),
                          (''results'', PList [])] then Inr sample_flight_json
       else Inl (Raised ''not serializable'')),
     str_other = (\<lambda>v. ''None'')\<rparr>"

definition sample_flight_arguments :: pydict where
  "sample_flight_arguments =
    [(''origin'', PStr ''SFO''), (''destination'', PStr ''NRT''),
     (''depart_date'', PStr ''2024-05-01'')]"

section \<open>Successful calls\<close>

text \<open>What a run of \<open>call_tool\<close> that returns a response has done.\<close>

lemma plan_trip_success:
  assumes "call_tool e ''travel.plan_trip'' arguments = (Inr resp, tr)"
  shows "\<exists>question result payload.
      map_of arguments ''question'' = Some question
    \<and> graph_invoke e (default_state question) = Inr result
    \<and> json_dumps e (PDict result) = Inr payload
    \<and> tr = [DefaultState question, GraphInvoke (default_state question)]
    \<and> resp = ToolResponse
        [TextContent (py_or (dict_get result ''final_answer'') (PStr ''No response produced.'')),
         BlobContent (encode_utf8 payload) ''application/json'' ''plan_trip.json'']"
  using assms
  by (auto simp: call_tool_def invoke_graph_def dict_item_def Let_def
      split: option.splits sum.splits)

lemma flight_lookup_success:
  assumes "flight_lookup e arguments = (Inr flight_payload, tr)"
  shows "\<exists>query results.
      flight_query e arguments = Inr query
    \<and> serp_search e query ''google'' = Inr results
    \<and> tr = [SerpSearch query ''google'']
    \<and> flight_payload = [(''query'', PStr query), (''results'', results)]"
  using assms
  by (auto simp: flight_lookup_def split: sum.splits)

lemma search_flights_success:
  assumes "call_tool e ''travel.search_flights'' arguments = (Inr resp, tr)"
  shows "\<exists>query results payload.
      flight_query e arguments = Inr query
    \<and> serp_search e query ''google'' = Inr results
    \<and> json_dumps e (PDict [(''query'', PStr query), (''results'', results)]) = Inr payload
    \<and> tr = [SerpSearch query ''google'']
    \<and> resp = ToolResponse
        [TextContent (PStr (''Flight SERP query executed: '' @ query)),
         BlobContent (encode_utf8 payload) ''application/json'' ''flight_search.json'']"
proof -
  from assms obtain flight_payload where
    fl: "flight_lookup e arguments = (Inr flight_payload, tr)"
    by (auto simp: call_tool_def split: sum.splits prod.splits)
  from flight_lookup_success [OF fl] obtain query results where
    q: "flight_query e arguments = Inr query"
    and s: "serp_search e query ''google'' = Inr results"
    and t: "tr = [SerpSearch query ''google'']"
    and p: "flight_payload = [(''query'', PStr query), (''results'', results)]"
    by blast
  from assms fl p have
    "\<exists>payload. json_dumps e (PDict [(''query'', PStr query), (''results'', results)]) = Inr payload
      \<and> resp = ToolResponse
        [TextContent (PStr (''Flight SERP query executed: '' @ query)),
         BlobContent (encode_utf8 payload) ''application/json'' ''flight_search.json'']"
    by (auto simp: call_tool_def dict_item_def py_format_def split: sum.splits)
  with q s t show ?thesis by blast
qed


lemma sample_empty_run:
  "call_tool sample_env ''travel.plan_trip'' [(''question'', PStr '''')]
     = (Inr (ToolResponse
          [TextContent (PStr ''No response produced.''),
           BlobContent (encode_utf8 sample_empty_json) ''application/json'' ''plan_trip.json'']),
        [DefaultState (PStr ''''), GraphInvoke (default_state (PStr ''''))])"
  by (simp add: call_tool_def invoke_graph_def dict_item_def dict_get_def py_or_def
      sample_env_def default_state_def sample_question_def)

lemma sample_flight_run:
  "call_tool sample_env ''travel.search_flights'' sample_flight_arguments
     = (Inr (ToolResponse
          [TextContent (PStr ''Flight SERP query executed: flights from SFO to NRT on 2024-05-01''),
           BlobContent (encode_utf8 sample_flight_json) ''application/json''
             ''flight_search.json'']),
        [SerpSearch ''flights from SFO to NRT on 2024-05-01'' ''google''])"
  by (simp add: call_tool_def flight_lookup_def flight_query_def dict_item_def dict_get_def
      py_format_def sample_env_def sample_flight_arguments_def)

section \<open>The claims\<close>

text \<open>
  C1. For all strings \<open>origin\<close> and \<open>destination\<close> and all optional strings
  \<open>depart_date\<close> and \<open>return_date\<close> (a missing key and the value \<open>None\<close> both count as
  absent), the query that \<open>_flight_lookup\<close> builds and hands to the search helper is
  \<open>flights from <origin> to <destination>\<close>, followed by \<open> on <depart_date>\<close> exactly
  when the depart date is present and not empty, followed by \<open> return <return_date>\<close>
  exactly when the return date is present and not empty. The instance below is the one
  with SFO, NRT, 2024-05-01 and no return date.
\<close>

theorem flight_query_format:
  assumes "map_of arguments ''origin'' = Some (PStr origin)"
    and "map_of arguments ''destination'' = Some (PStr destination)"
    and "dict_get arguments ''depart_date''
          = (case depart_date of None \<Rightarrow> PNone | Some d \<Rightarrow> PStr d)"
    and "dict_get arguments ''return_date''
          = (case return_date of None \<Rightarrow> PNone | Some d \<Rightarrow> PStr d)"
  shows "flight_query e arguments
           = Inr (spec_flight_query origin destination depart_date return_date)
       \<and> snd (flight_lookup e arguments)
           = [SerpSearch (spec_flight_query origin destination depart_date return_date)
                ''google'']"
proof -
  have q: "flight_query e arguments
           = Inr (spec_flight_query origin destination depart_date return_date)"
    using assms
    by (cases depart_date; cases return_date)
       (simp_all add: flight_query_def dict_item_def py_format_def
          spec_flight_query_def spec_clause_def)
  then show ?thesis
    by (simp add: flight_lookup_def split: sum.splits)
qed

theorem flight_query_format_witness:
  "flight_query sample_env sample_flight_arguments
     = Inr ''flights from SFO to NRT on 2024-05-01''
   \<and> snd (flight_lookup sample_env sample_flight_arguments)
     = [SerpSearch ''flights from SFO to NRT on 2024-05-01'' ''google'']"
  using flight_query_format [of sample_flight_arguments "''SFO''" "''NRT''"
      "Some ''2024-05-01''" None sample_env]
  by (simp add: sample_flight_arguments_def dict_get_def spec_flight_query_def
      spec_clause_def)

text \<open>
  C2. For every \<open>travel.plan_trip\<close> call that returns a response: when the mapping that
  the pipeline returned has no key \<open>final_answer\<close>, or a value there that is false, the
  text part is the string \<open>No response produced.\<close>; otherwise the text part is the value
  of \<open>final_answer\<close>.
\<close>

theorem plan_trip_text:
  assumes "call_tool e ''travel.plan_trip'' arguments = (Inr resp, tr)"
  shows "\<exists>question result t blob.
      map_of arguments ''question'' = Some question
    \<and> graph_invoke e (default_state question) = Inr result
    \<and> content resp = [TextContent t, blob]
    \<and> (map_of result ''final_answer'' = None \<longrightarrow> t = PStr ''No response produced.'')
    \<and> (\<forall>v. map_of result ''final_answer'' = Some v \<longrightarrow> \<not> py_truthy v
           \<longrightarrow> t = PStr ''No response produced.'')
    \<and> (\<forall>v. map_of result ''final_answer'' = Some v \<longrightarrow> py_truthy v \<longrightarrow> t = v)"
proof -
  from plan_trip_success [OF assms] obtain question result payload where
    a: "map_of arguments ''question'' = Some question"
    and g: "graph_invoke e (default_state question) = Inr result"
    and r: "resp = ToolResponse
        [TextContent (py_or (dict_get result ''final_answer'') (PStr ''No response produced.'')),
         BlobContent (encode_utf8 payload) ''application/json'' ''plan_trip.json'']"
    by blast
  let ?t = "py_or (dict_get result ''final_answer'') (PStr ''No response produced.'')"
  have "map_of result ''final_answer'' = None \<longrightarrow> ?t = PStr ''No response produced.''"
    by (simp add: py_or_def dict_get_def)
  moreover have "\<forall>v. map_of result ''final_answer'' = Some v \<longrightarrow> \<not> py_truthy v
      \<longrightarrow> ?t = PStr ''No response produced.''"
    by (simp add: py_or_def dict_get_def)
  moreover have "\<forall>v. map_of result ''final_answer'' = Some v \<longrightarrow> py_truthy v \<longrightarrow> ?t = v"
    by (simp add: py_or_def dict_get_def)
  ultimately show ?thesis using a g r by auto
qed

theorem plan_trip_text_witness:
  "call_tool sample_env ''travel.plan_trip'' [(''question'', PStr '''')]
     = (Inr (ToolResponse
          [TextContent (PStr ''No response produced.''),
           BlobContent (encode_utf8 sample_empty_json) ''application/json'' ''plan_trip.json'']),
        [DefaultState (PStr ''''), GraphInvoke (default_state (PStr ''''))])
   \<and> (\<exists>question result t blob.
      map_of [(''question'', PStr '''')] ''question'' = Some question
    \<and> graph_invoke sample_env (default_state question) = Inr result
    \<and> [TextContent (PStr ''No response produced.''),
        BlobContent (encode_utf8 sample_empty_json) ''application/json'' ''plan_trip.json'']
       = [TextContent t, blob]
    \<and> (map_of result ''final_answer'' = None \<longrightarrow> t = PStr ''No response produced.'')
    \<and> (\<forall>v. map_of result ''final_answer'' = Some v \<longrightarrow> \<not> py_truthy v
           \<longrightarrow> t = PStr ''No response produced.'')
    \<and> (\<forall>v. map_of result ''final_answer'' = Some v \<longrightarrow> py_truthy v \<longrightarrow> t = v))"
  using sample_empty_run plan_trip_text [OF sample_empty_run] by simp



text \<open>
  C4. For every tool name other than \<open>travel.plan_trip\<close> and \<open>travel.search_flights\<close> and
  every argument mapping, \<open>call_tool\<close> fails with the unsupported-tool error, returns no
  response, and makes no call: no state is built, neither the pipeline nor the search
  helper is invoked.
\<close>

theorem unsupported_tool:
  assumes "name \<noteq> ''travel.plan_trip''" and "name \<noteq> ''travel.search_flights''"
  shows "call_tool e name arguments = (Inl (ToolError (''Unsupported tool: '' @ name)), [])"
  using assms by (simp add: call_tool_def)

theorem unsupported_tool_witness:
  "''travel.unknown'' \<noteq> ''travel.plan_trip''
   \<and> ''travel.unknown'' \<noteq> ''travel.search_flights''
   \<and> call_tool sample_env ''travel.unknown'' [(''question'', PStr sample_question)]
     = (Inl (ToolError ''Unsupported tool: travel.unknown''), [])"
  using unsupported_tool [of "''travel.unknown''" sample_env
      "[(''question'', PStr sample_question)]"]
  by simp

text \<open>
  C5, as stated: a \<open>travel.plan_trip\<close> call whose arguments lack \<open>question\<close> fails with a
  tool-level error. It does not: on the empty argument mapping the subscript
  \<open>arguments["question"]\<close> raises \<open>KeyError\<close>, which is not a \<open>ToolError\<close>.
\<close>

theorem missing_argument_not_tool_error:
  "call_tool sample_env ''travel.plan_trip'' [] = (Inl (KeyError ''question''), [])
   \<and> \<not> tool_level_error (fst (call_tool sample_env ''travel.plan_trip'' []))"
  by (simp add: call_tool_def dict_item_def tool_level_error_def)

text \<open>
  C5, amended. A \<open>travel.plan_trip\<close> call whose arguments lack \<open>question\<close> fails with the
  \<open>KeyError\<close> of the key \<open>question\<close>, before a pipeline state is built and before the
  pipeline is invoked. A \<open>travel.search_flights\<close> call whose arguments lack \<open>origin\<close> fails
  with the \<open>KeyError\<close> of \<open>origin\<close>, and one that has \<open>origin\<close> and lacks \<open>destination\<close>
  with the \<open>KeyError\<close> of \<open>destination\<close>, before the search helper is invoked.
\<close>

theorem missing_argument_key_error:
  "(map_of arguments ''question'' = None
      \<longrightarrow> call_tool e ''travel.plan_trip'' arguments = (Inl (KeyError ''question''), []))
   \<and> (map_of arguments ''origin'' = None
      \<longrightarrow> call_tool e ''travel.search_flights'' arguments = (Inl (KeyError ''origin''), []))
   \<and> (map_of arguments ''origin'' \<noteq> None \<longrightarrow> map_of arguments ''destination'' = None
      \<longrightarrow> call_tool e ''travel.search_flights'' arguments
            = (Inl (KeyError ''destination''), []))"
  by (auto simp: call_tool_def flight_lookup_def flight_query_def dict_item_def)

theorem missing_argument_key_error_witness:
  "map_of [(''origin'', PStr ''SFO'')] ''question'' = None
   \<and> call_tool sample_env ''travel.plan_trip'' [(''origin'', PStr ''SFO'')]
      = (Inl (KeyError ''question''), [])
   \<and> map_of [(''question'', PStr sample_question)] ''origin'' = None
   \<and> call_tool sample_env ''travel.search_flights'' [(''question'', PStr sample_question)]
      = (Inl (KeyError ''origin''), [])
   \<and> map_of [(''origin'', PStr ''SFO'')] ''origin'' \<noteq> None
   \<and> map_of [(''origin'', PStr ''SFO'')] ''destination'' = None
   \<and> call_tool sample_env ''travel.search_flights'' [(''origin'', PStr ''SFO'')]
      = (Inl (KeyError ''destination''), [])"
  using missing_argument_key_error [of "[(''origin'', PStr ''SFO'')]" sample_env]
    missing_argument_key_error [of "[(''question'', PStr sample_question)]" sample_env]
  by simp



text \<open>
  C7. For every question string, the state that \<open>_default_state\<close> builds holds the
  question as the content of its single message, whose role is \<open>user\<close>, and under
  \<open>user_question\<close>; each of the nine result and analysis slots is a key of the state,
  with the value \<open>None\<close>; the state has no other key.
\<close>

theorem default_state_slots:
  "map_of (default_state (PStr question)) ''messages''
      = Some (PList [PDict [(''role'', PStr ''user''), (''content'', PStr question)]])
   \<and> map_of (default_state (PStr question)) ''user_question'' = Some (PStr question)
   \<and> map_of (default_state (PStr question)) ''google_results'' = Some PNone
   \<and> map_of (default_state (PStr question)) ''bing_results'' = Some PNone
   \<and> map_of (default_state (PStr question)) ''reddit_results'' = Some PNone
   \<and> map_of (default_state (PStr question)) ''google_analysis'' = Some PNone
   \<and> map_of (default_state (PStr question)) ''bing_analysis'' = Some PNone
   \<and> map_of (default_state (PStr question)) ''reddit_analysis'' = Some PNone
   \<and> map_of (default_state (PStr question)) ''selected_reddit_urls'' = Some PNone
   \<and> map_of (default_state (PStr question)) ''reddit_post_data'' = Some PNone
   \<and> map_of (default_state (PStr question)) ''final_answer'' = Some PNone
   \<and> map fst (default_state (PStr question))
      = [''messages'', ''user_question'', ''google_results'', ''bing_results'',
         ''reddit_results'', ''selected_reddit_urls'', ''reddit_post_data'',
         ''google_analysis'', ''bing_analysis'', ''reddit_analysis'', ''final_answer'']"
  by (simp add: default_state_def)

text \<open>
  C8. \<open>list_tools\<close> has no argument and is a value: it reads and writes nothing, cannot
  fail, and is the same sequence at every call. The sequence has two descriptors, named
  \<open>travel.plan_trip\<close> and \<open>travel.search_flights\<close>, so the names are pairwise distinct.
  The first schema requires exactly \<open>question\<close>, the second exactly \<open>origin\<close> and
  \<open>destination\<close>, and each of these properties has type \<open>string\<close>.
\<close>

theorem list_tools_registry:
  "\<exists>plan search.
      list_tools = [plan, search]
    \<and> tool_name plan = ''travel.plan_trip''
    \<and> tool_name search = ''travel.search_flights''
    \<and> distinct (map tool_name list_tools)
    \<and> type (input_schema plan) = ''object''
    \<and> required (input_schema plan) = Some [''question'']
    \<and> map_option (map (\<lambda>(k, s). (k, type s))) (properties (input_schema plan))
        = Some [(''question'', ''string'')]
    \<and> type (input_schema search) = ''object''
    \<and> required (input_schema search) = Some [''origin'', ''destination'']
    \<and> map_option (map (\<lambda>(k, s). (k, type s))) (properties (input_schema search))
        = Some [(''origin'', ''string''), (''destination'', ''string''),
                (''depart_date'', ''string''), (''return_date'', ''string'')]"
  by (simp add: list_tools_def)

text \<open>
  C9. In a \<open>travel.plan_trip\<close> call the substitution of \<open>No response produced.\<close> touches
  the text part only. Whatever mapping the pipeline returns, the serializer is applied
  to that mapping as it is, and the blob holds the bytes of what it gives; when
  \<open>final_answer\<close> is absent or false the text part is the substituted string while the
  serialized mapping still has the original value, which is not that string.
\<close>

theorem plan_trip_payload_frame:
  assumes "map_of arguments ''question'' = Some question"
    and "graph_invoke e (default_state question) = Inr result"
    and "json_dumps e (PDict result) = Inr payload"
  shows "\<exists>t.
      call_tool e ''travel.plan_trip'' arguments
        = (Inr (ToolResponse
             [TextContent t,
              BlobContent (encode_utf8 payload) ''application/json'' ''plan_trip.json'']),
           [DefaultState question, GraphInvoke (default_state question)])
    \<and> (\<not> py_truthy (dict_get result ''final_answer'')
        \<longrightarrow> t = PStr ''No response produced.''
          \<and> dict_get result ''final_answer'' \<noteq> t)"
  using assms
  by (auto simp: call_tool_def invoke_graph_def dict_item_def py_or_def)

theorem plan_trip_payload_frame_witness:
  "map_of [(''question'', PStr '''')] ''question'' = Some (PStr '''')
   \<and> graph_invoke sample_env (default_state (PStr '''')) = Inr [(''final_answer'', PNone)]
   \<and> json_dumps sample_env (PDict [(''final_answer'', PNone)]) = Inr sample_empty_json
   \<and> (\<exists>t.
      call_tool sample_env ''travel.plan_trip'' [(''question'', PStr '''')]
        = (Inr (ToolResponse
             [TextContent t,
              BlobContent (encode_utf8 sample_empty_json) ''application/json''
                ''plan_trip.json'']),
           [DefaultState (PStr ''''), GraphInvoke (default_state (PStr ''''))])
    \<and> (\<not> py_truthy (dict_get [(''final_answer'', PNone)] ''final_answer'')
        \<longrightarrow> t = PStr ''No response produced.''
          \<and> dict_get [(''final_answer'', PNone)] ''final_answer'' \<noteq> t))"
proof -
  have a: "map_of [(''question'', PStr '''')] ''question'' = Some (PStr '''')"
    by simp
  have g: "graph_invoke sample_env (default_state (PStr '''')) = Inr [(''final_answer'', PNone)]"
    by (simp add: sample_env_def default_state_def dict_get_def sample_question_def)
  have j: "json_dumps sample_env (PDict [(''final_answer'', PNone)]) = Inr sample_empty_json"
    by (simp add: sample_env_def)
  from plan_trip_payload_frame [OF a g j] a g j show ?thesis by blast
qed

text \<open>
  C10. For every \<open>travel.search_flights\<close> call that returns a response, the text part
  is the string \<open>Flight SERP query executed: \<close> followed by the formatted query, and
  the blob part has filename \<open>flight_search.json\<close> and media type \<open>application/json\<close>.
\<close>

theorem search_flights_text:
  assumes "call_tool e ''travel.search_flights'' arguments = (Inr resp, tr)"
  shows "\<exists>query blob.
      flight_query e arguments = Inr query
    \<and> content resp
        = [TextContent (PStr (''Flight SERP query executed: '' @ query)),
           BlobContent blob ''application/json'' ''flight_search.json'']"
  using search_flights_success [OF assms] by auto

theorem search_flights_text_witness:
  "call_tool sample_env ''travel.search_flights'' sample_flight_arguments
     = (Inr (ToolResponse
          [TextContent (PStr ''Flight SERP query executed: flights from SFO to NRT on 2024-05-01''),
           BlobContent (encode_utf8 sample_flight_json) ''application/json''
             ''flight_search.json'']),
        [SerpSearch ''flights from SFO to NRT on 2024-05-01'' ''google''])
   \<and> (\<exists>query blob.
      flight_query sample_env sample_flight_arguments = Inr query
    \<and> [TextContent (PStr ''Flight SERP query executed: flights from SFO to NRT on 2024-05-01''),
        BlobContent (encode_utf8 sample_flight_json) ''application/json''
          ''flight_search.json'']
        = [TextContent (PStr (''Flight SERP query executed: '' @ query)),
           BlobContent blob ''application/json'' ''flight_search.json''])"
  using sample_flight_run search_flights_text [OF sample_flight_run] by simp

end
